theory Spec2Isabelle
  imports Main "HOL-Library.Sublist"
begin

section \<open>The document tree\<close>

text \<open>
  The converter (\<^verbatim>\<open>src/unnamed/part_002\<close>) works on the DOM tree that the browser's
  \<^verbatim>\<open>DOMParser\<close> returns.  A node is an element (tag name, attributes in source order,
  child nodes in document order) or a text node.  Comments and processing instructions
  are left out: none of the accessors the converter uses (\<^verbatim>\<open>children\<close>,
  \<^verbatim>\<open>childElementCount\<close>, \<^verbatim>\<open>textContent\<close>, \<^verbatim>\<open>attributes\<close>,
  \<^verbatim>\<open>querySelector\<close>) sees them.

  Strings are \<^typ>\<open>string\<close>.  \<^verbatim>\<open>toLowerCase\<close> is modelled on ASCII: the letters
  A to Z are lowered and every other character is kept.  \<^verbatim>\<open>trim\<close> is not modelled:
  which characters it strips is the runtime's matter (its white space includes U+00A0,
  U+FEFF and the Unicode space separators), so it is a parameter of the model.
\<close>

datatype node =
    Element string "(string \<times> string) list" "node list"
  | Text string

fun isElement :: "node \<Rightarrow> bool" where
  "isElement (Element t as cs) = True"
| "isElement (Text s) = False"

fun tagName :: "node \<Rightarrow> string" where
  "tagName (Element t as cs) = t"
| "tagName (Text s) = []"

fun attributes :: "node \<Rightarrow> (string \<times> string) list" where
  "attributes (Element t as cs) = as"
| "attributes (Text s) = []"

fun childNodes :: "node \<Rightarrow> node list" where
  "childNodes (Element t as cs) = cs"
| "childNodes (Text s) = []"

text \<open>\<^verbatim>\<open>element.children\<close>: the child nodes that are elements, in document order.\<close>

definition children :: "node \<Rightarrow> node list" where
  "children n = filter isElement (childNodes n)"

definition childElementCount :: "node \<Rightarrow> nat" where
  "childElementCount n = length (children n)"

text \<open>\<^verbatim>\<open>node.textContent\<close>: the text of every text node below the node, concatenated.\<close>

fun textContent :: "node \<Rightarrow> string" where
  "textContent (Text s) = s"
| "textContent (Element t as cs) = concat (map textContent cs)"

definition hasAttribute :: "node \<Rightarrow> string \<Rightarrow> bool" where
  "hasAttribute n name = (map_of (attributes n) name \<noteq> None)"

definition getAttribute :: "node \<Rightarrow> string \<Rightarrow> string option" where
  "getAttribute n name = map_of (attributes n) name"

definition lowerChar :: "char \<Rightarrow> char" where
  "lowerChar c =
     (case map_of (zip ''ABCDEFGHIJKLMNOPQRSTUVWXYZ'' ''abcdefghijklmnopqrstuvwxyz'') c of
        Some l \<Rightarrow> l
      | None \<Rightarrow> c)"

definition toLowerCase :: "string \<Rightarrow> string" where
  "toLowerCase s = map lowerChar s"

section \<open>The tabular predicate\<close>

text \<open>
  \<^verbatim>\<open>isTabularData\<close> (lines 172 to 194).  \<^verbatim>\<open>children[0]\<close> is read only after the
  early return for at most one child, so the list is not empty there.
\<close>

definition tabularTags :: "string list" where
  "tabularTags = [''table'', ''grid'', ''dataset'', ''records'', ''rows'']"

definition isTabularData :: "node \<Rightarrow> bool" where
  "isTabularData element =
     (if toLowerCase (tagName element) \<in> set tabularTags then True
      else
        let kids = children element in
        if length kids \<le> 1 then False
        else
          let firstChildTag = tagName (kids ! 0);
              allSameTag = list_all (\<lambda>child. tagName child = firstChildTag) kids
          in
            if allSameTag \<and> length kids > 1 then
              let firstRowHasCells = length (children (kids ! 0)) > 1 in firstRowHasCells
            else False)"

section \<open>Selectors\<close>

text \<open>
  The selectors the converter passes to \<^verbatim>\<open>querySelector\<close> and \<^verbatim>\<open>querySelectorAll\<close>
  are lists of type selectors (\<^verbatim>\<open>item, entry\<close>) and of child combinators between two
  type selectors (\<^verbatim>\<open>channel > title\<close>).  In an XML document a type selector compares,
  case-sensitively, with the element's local name: the tag name without its namespace
  prefix.  Both calls search the elements strictly below the context element, in
  document order.
\<close>

definition localName :: "node \<Rightarrow> string" where
  "localName n =
     (let t = tagName n in
      if CHR '':'' \<in> set t then tl (dropWhile (\<lambda>c. c \<noteq> CHR '':'') t) else t)"

datatype selector = TypeSel string | ChildSel string string

text \<open>Every element strictly below a node, paired with its parent, in document order.\<close>

fun walk :: "node \<Rightarrow> (node \<times> node) list" where
  "walk (Text s) = []"
| "walk (Element t as cs) =
     concat (map (\<lambda>c. if isElement c then (Element t as cs, c) # walk c else []) cs)"

definition descendants :: "node \<Rightarrow> node list" where
  "descendants n = map snd (walk n)"

fun matches :: "selector \<Rightarrow> node \<times> node \<Rightarrow> bool" where
  "matches (TypeSel name) (parent, e) = (localName e = name)"
| "matches (ChildSel pname name) (parent, e) = (localName e = name \<and> localName parent = pname)"

definition querySelectorAll :: "selector list \<Rightarrow> node \<Rightarrow> node list" where
  "querySelectorAll sels n = map snd (filter (\<lambda>pe. list_ex (\<lambda>s. matches s pe) sels) (walk n))"

definition querySelector :: "selector list \<Rightarrow> node \<Rightarrow> node option" where
  "querySelector sels n = (case querySelectorAll sels n of [] \<Rightarrow> None | e # es \<Rightarrow> Some e)"

section \<open>The host\<close>

text \<open>
  What the converter takes from the browser and from the js-beautify library, and what
  is not in the repository, is a parameter of the model:
  \<^item> \<^verbatim>\<open>XMLSerializer.serializeToString\<close>, on an element and on the document;
  \<^item> \<^verbatim>\<open>js_beautify\<close> with the options of \<^verbatim>\<open>formatCode\<close> (\<open>None\<close> when it throws);
  \<^item> \<^verbatim>\<open>querySelector\<close> on a selector text that is not a plain name (a tag name with
    a colon or a dot is read by the selector parser as a pseudo-class or a class
    selector; \<open>Inl\<close> when the call throws);
  \<^item> the text of the values an object literal inherits from \<^verbatim>\<open>Object.prototype\<close>;
  \<^item> \<^verbatim>\<open>String.prototype.trim\<close>.
  The document itself is the parser's: every function that calls
  \<^verbatim>\<open>parser.parseFromString(xmlString, "text/xml")\<close> takes the document element of the
  returned document as the argument \<open>xmlDoc\<close>.
\<close>

datatype error = InvalidXmlFormat | SelectorSyntaxError

record host =
  serializeToString :: "node \<Rightarrow> string"
  serializeDocument :: "node \<Rightarrow> string"
  js_beautify :: "string \<Rightarrow> string option"
  querySelectorOther :: "string \<Rightarrow> node \<Rightarrow> error + node option"
  objectText :: "string \<Rightarrow> string"
  trim :: "string \<Rightarrow> string"

text \<open>\<^verbatim>\<open>a || b\<close> on strings: the empty string is falsy.\<close>

definition orElse :: "string \<Rightarrow> string \<Rightarrow> string" where
  "orElse a b = (if a = [] then b else a)"

text \<open>
  \<^verbatim>\<open>forEach\<close> with a body that appends to \<^verbatim>\<open>html\<close> is \<^const>\<open>foldl\<close>; with a body
  that may throw it is \<open>foldE\<close>, which stops at the first error.
\<close>

fun foldE :: "('b \<Rightarrow> 'a \<Rightarrow> error + 'b) \<Rightarrow> 'b \<Rightarrow> 'a list \<Rightarrow> error + 'b" where
  "foldE f acc [] = Inr acc"
| "foldE f acc (x # xs) = (case f acc x of Inl e \<Rightarrow> Inl e | Inr acc' \<Rightarrow> foldE f acc' xs)"

section \<open>The Table renderer\<close>

text \<open>\<^verbatim>\<open>convertTableXmlToHtml\<close> (lines 66 to 112).\<close>

definition tableXmlOpen :: string where
  "tableXmlOpen =
     ''\<newline>'' @
     ''    <div class=\"xml-table-container\">\<newline>'' @
     ''      <style>\<newline>'' @
     ''        .xml-table-container { font-family: system-ui, sans-serif; }\<newline>'' @
     ''        .table { width: 100%; border-collapse: collapse; margin-bottom: 1rem; }\<newline>'' @
     ''        .table th, .table td { padding: 0.75rem; text-align: left; border: 1px solid #e2e8f0; }\<newline>'' @
     ''        .table th { font-weight: 600; background-color: #f8fafc; }\<newline>'' @
     ''        .table-responsive { overflow-x: auto; }\<newline>'' @
     ''        .table tr:nth-child(even) { background-color: #f8fafc; }\<newline>'' @
     ''      </style>\<newline>'' @
     ''      <div class=\"table-responsive\">\<newline>'' @
     ''        <table class=\"table\">\<newline>'' @
     ''  ''"

definition convertTableXmlToHtml :: "node \<Rightarrow> string" where
  "convertTableXmlToHtml tableElement =
     (let html = tableXmlOpen;
          header = querySelector [TypeSel ''header''] tableElement;
          html =
            (case header of
               Some header \<Rightarrow>
                 let html = html @ ''<thead><tr>'';
                     columns = querySelectorAll [TypeSel ''column''] header;
                     html = foldl (\<lambda>html col.
                              html @ ''<th>'' @ orElse (textContent col) [] @ ''</th>'') html columns
                 in html @ ''</tr></thead>''
             | None \<Rightarrow> html);
          rows = querySelectorAll [TypeSel ''row''] tableElement;
          html =
            (if length rows > 0 then
               let html = html @ ''<tbody>'';
                   html = foldl (\<lambda>html row.
                            let html = html @ ''<tr>'';
                                cells = querySelectorAll [TypeSel ''cell''] row;
                                html = foldl (\<lambda>html cell.
                                         html @ ''<td>'' @ orElse (textContent cell) [] @ ''</td>'')
                                       html cells
                            in html @ ''</tr>'') html rows
               in html @ ''</tbody>''
             else html)
      in html @ ''</table></div></div>'')"

section \<open>The Feed renderer\<close>

text \<open>
  \<^verbatim>\<open>convertFeedToHtml\<close> (lines 117 to 154).  \<open>feedItem\<close> is the body of the loop over
  the items (lines 137 to 146).  \<^verbatim>\<open>x?.textContent || d\<close> is \<open>d\<close> when nothing matches
  and when the text is empty.
\<close>

definition textOr :: "node option \<Rightarrow> string \<Rightarrow> string" where
  "textOr n d = (case n of None \<Rightarrow> d | Some e \<Rightarrow> orElse (textContent e) d)"

definition feedItem :: "node \<Rightarrow> string" where
  "feedItem item =
     (let itemTitle = textOr (querySelector [TypeSel ''title''] item) ''Untitled'';
          itemLink = textOr (querySelector [TypeSel ''link''] item) ''#'';
          itemDesc = textOr (querySelector
                       [TypeSel ''description'', TypeSel ''summary'', TypeSel ''content''] item) []
      in ''\<newline>'' @
         ''        <div class=\"feed-item\">\<newline>'' @
         ''          <h2><a href=\"'' @ itemLink @ ''\">'' @ itemTitle @ ''</a></h2>\<newline>'' @
         ''          <div class=\"feed-content\">'' @ itemDesc @ ''</div>\<newline>'' @
         ''        </div>\<newline>'' @
         ''      '')"

definition convertFeedToHtml :: "node \<Rightarrow> string" where
  "convertFeedToHtml rootElement =
     (let html = ''<div class=\"xml-feed\">'';
          title = textOr (querySelector
                    [TypeSel ''title'', ChildSel ''channel'' ''title''] rootElement) ''XML Feed'';
          html = html @ ''<h1>'' @ title @ ''</h1>'';
          description = map_option textContent (querySelector
                    [TypeSel ''description'', ChildSel ''channel'' ''description'',
                     TypeSel ''subtitle''] rootElement);
          html =
            (case description of
               Some d \<Rightarrow>
                 if d \<noteq> [] then html @ ''<p class=\"feed-description\">'' @ d @ ''</p>''
                 else html
             | None \<Rightarrow> html);
          items = querySelectorAll [TypeSel ''item'', TypeSel ''entry''] rootElement;
          html =
            (if length items > 0 then
               let html = html @ ''<div class=\"feed-items\">'';
                   html = foldl (\<lambda>html item. html @ feedItem item) html items
               in html @ ''</div>''
             else html)
      in html @ ''</div>'')"

section \<open>The TabularGeneric renderer\<close>

text \<open>
  \<^verbatim>\<open>convertToHtmlTable\<close> (lines 199 to 249).  The \<^verbatim>\<open>Set\<close> of column names keeps
  insertion order and ignores a name it already holds.  \<^verbatim>\<open>row.querySelector(colName)\<close>
  takes a tag name as the selector text: a plain name (ASCII letters, digits, hyphen and
  underscore, starting with a letter or an underscore) is a type selector, any other
  text is the host's.
\<close>

definition setAdd :: "string list \<Rightarrow> string \<Rightarrow> string list" where
  "setAdd names name = (if name \<in> set names then names else names @ [name])"

definition nameStartChars :: string where
  "nameStartChars = ''abcdefghijklmnopqrstuvwxyzABCDEFGHIJKLMNOPQRSTUVWXYZ_''"

definition nameChars :: string where
  "nameChars = nameStartChars @ ''0123456789-''"

definition isPlainName :: "string \<Rightarrow> bool" where
  "isPlainName s =
     (case s of
        [] \<Rightarrow> False
      | c # cs \<Rightarrow> c \<in> set nameStartChars \<and> list_all (\<lambda>d. d \<in> set nameChars) cs)"

definition querySelectorText :: "host \<Rightarrow> string \<Rightarrow> node \<Rightarrow> error + node option" where
  "querySelectorText h sel n =
     (if isPlainName sel then Inr (querySelector [TypeSel sel] n)
      else querySelectorOther h sel n)"

definition htmlTableOpen :: string where
  "htmlTableOpen =
     ''<div class=\"table-responsive\">'' @
     ''<table class=\"table\" border=\"1\" cellpadding=\"8\" cellspacing=\"0\">''"

definition htmlTableWrapOpen :: string where
  "htmlTableWrapOpen =
     ''\<newline>'' @
     ''    <div class=\"xml-table-container\">\<newline>'' @
     ''      <style>\<newline>'' @
     ''        .xml-table-container { font-family: system-ui, sans-serif; }\<newline>'' @
     ''        .table { width: 100%; border-collapse: collapse; margin-bottom: 1rem; }\<newline>'' @
     ''        .table th, .table td { padding: 0.75rem; text-align: left; border-bottom: 1px solid #e2e8f0; }\<newline>'' @
     ''        .table th { font-weight: 600; background-color: #f8fafc; }\<newline>'' @
     ''        .table-responsive { overflow-x: auto; }\<newline>'' @
     ''        .table tr:nth-child(even) { background-color: #f8fafc; }\<newline>'' @
     ''      </style>\<newline>'' @
     ''      ''"

definition htmlTableWrapClose :: string where
  "htmlTableWrapClose =
     ''\<newline>'' @
     ''    </div>\<newline>'' @
     ''  ''"

definition allColumnNames :: "node list \<Rightarrow> string list" where
  "allColumnNames rows =
     foldl (\<lambda>names row. foldl (\<lambda>names cell. setAdd names (tagName cell)) names (children row))
       [] rows"

definition tableCell :: "host \<Rightarrow> node \<Rightarrow> string \<Rightarrow> string \<Rightarrow> error + string" where
  "tableCell h row html colName =
     (case querySelectorText h colName row of
        Inl e \<Rightarrow> Inl e
      | Inr cell \<Rightarrow>
          let cellContent = (case cell of Some c \<Rightarrow> orElse (textContent c) [] | None \<Rightarrow> [])
          in Inr (html @ ''<td>'' @ cellContent @ ''</td>''))"

definition tableRow :: "host \<Rightarrow> string list \<Rightarrow> string \<Rightarrow> node \<Rightarrow> error + string" where
  "tableRow h columnNames html row =
     (case foldE (tableCell h row) (html @ ''<tr>'') columnNames of
        Inl e \<Rightarrow> Inl e
      | Inr html \<Rightarrow> Inr (html @ ''</tr>''))"

definition convertToHtmlTable :: "host \<Rightarrow> node \<Rightarrow> error + string" where
  "convertToHtmlTable h element =
     (let rows = children element in
      if length rows = 0 then Inr []
      else
        let html = htmlTableOpen;
            columnNames = allColumnNames rows;
            html = html @ ''<thead><tr>'';
            html = foldl (\<lambda>html colName. html @ ''<th>'' @ colName @ ''</th>'') html columnNames;
            html = html @ ''</tr></thead>'';
            html = html @ ''<tbody>''
        in
          case foldE (tableRow h columnNames) html rows of
            Inl e \<Rightarrow> Inl e
          | Inr html \<Rightarrow>
              let html = html @ ''</tbody></table></div>''
              in Inr (htmlTableWrapOpen @ html @ htmlTableWrapClose))"

section \<open>The SemanticGeneric renderer\<close>

text \<open>
  \<^verbatim>\<open>convertToSemanticHtml\<close> (lines 254 to 346).  \<^verbatim>\<open>tagMapping[tagName] || 'div'\<close>
  reads an object literal, so a key the literal does not hold is looked up in
  \<^verbatim>\<open>Object.prototype\<close>: of its properties only \<^verbatim>\<open>constructor\<close> and \<^verbatim>\<open>__proto__\<close> are
  lower-case names, and both values are truthy objects, not strings.  The template
  literal prints \<^verbatim>\<open>null\<close> for a missing attribute.
\<close>

definition tagMapping :: "(string \<times> string) list" where
  "tagMapping =
     [(''title'', ''h1''), (''subtitle'', ''h2''), (''header'', ''header''),
      (''footer'', ''footer''), (''section'', ''section''), (''paragraph'', ''p''),
      (''p'', ''p''), (''list'', ''ul''), (''item'', ''li''), (''link'', ''a''),
      (''image'', ''img''), (''img'', ''img''), (''table'', ''table''), (''row'', ''tr''),
      (''cell'', ''td''), (''heading'', ''h3''), (''content'', ''div''), (''div'', ''div''),
      (''span'', ''span''), (''article'', ''article''), (''nav'', ''nav''),
      (''button'', ''button''), (''input'', ''input'')]"

datatype jsvalue = JsString string | JsObject string

definition lookupTag :: "string \<Rightarrow> jsvalue" where
  "lookupTag name =
     (case map_of tagMapping name of
        Some t \<Rightarrow> JsString t
      | None \<Rightarrow>
          if name \<in> set [''constructor'', ''__proto__''] then JsObject name
          else JsString ''div'')"

fun toText :: "host \<Rightarrow> jsvalue \<Rightarrow> string" where
  "toText h (JsString s) = s"
| "toText h (JsObject key) = objectText h key"

definition nullOr :: "string option \<Rightarrow> string" where
  "nullOr v = (case v of None \<Rightarrow> ''null'' | Some s \<Rightarrow> s)"

definition semanticWrapOpen :: string where
  "semanticWrapOpen =
     ''\<newline>'' @
     ''      <div class=\"semantic-xml-content\">\<newline>'' @
     ''        <style>\<newline>'' @
     ''          .semantic-xml-content { font-family: system-ui, sans-serif; line-height: 1.5; }\<newline>'' @
     ''          .xml-title, .xml-h1 { font-size: 2rem; font-weight: bold; margin-bottom: 1rem; }\<newline>'' @
     ''          .xml-subtitle, .xml-h2 { font-size: 1.5rem; font-weight: bold; margin-bottom: 0.75rem; }\<newline>'' @
     ''          .xml-heading, .xml-h3 { font-size: 1.25rem; font-weight: bold; margin-bottom: 0.5rem; }\<newline>'' @
     ''          .xml-paragraph, .xml-p { margin-bottom: 1rem; }\<newline>'' @
     ''          .xml-list { list-style-type: disc; padding-left: 1.5rem; margin-bottom: 1rem; }\<newline>'' @
     ''          .xml-item { margin-bottom: 0.5rem; }\<newline>'' @
     ''          .xml-link { color: #0077cc; text-decoration: underline; }\<newline>'' @
     ''          .xml-image { max-width: 100%; height: auto; }\<newline>'' @
     ''          .xml-section { margin-bottom: 2rem; padding: 1rem; border: 1px solid #e2e8f0; border-radius: 0.25rem; }\<newline>'' @
     ''          .xml-content, .xml-div { margin-bottom: 1rem; }\<newline>'' @
     ''          .xml-article { border-bottom: 1px solid #e2e8f0; padding-bottom: 1rem; margin-bottom: 1rem; }\<newline>'' @
     ''          .xml-button { padding: 0.5rem 1rem; background-color: #f1f5f9; border: 1px solid #94a3b8; border-radius: 0.25rem; }\<newline>'' @
     ''        </style>\<newline>'' @
     ''        ''"

definition semanticWrapClose :: string where
  "semanticWrapClose =
     ''\<newline>'' @
     ''      </div>\<newline>'' @
     ''    ''"

text \<open>The start tag: lines 286 to 306.\<close>

definition startTag :: "host \<Rightarrow> node \<Rightarrow> string" where
  "startTag h element =
     (let tag = toLowerCase (tagName element);
          htmlTag = lookupTag tag;
          html = ''<'' @ toText h htmlTag;
          html = html @ '' class=\"xml-'' @ tag @ ''\"'';
          html =
            (if htmlTag = JsString ''a'' \<and> hasAttribute element ''href'' then
               html @ '' href=\"'' @ nullOr (getAttribute element ''href'') @ ''\"''
             else if htmlTag = JsString ''img'' \<and> hasAttribute element ''src'' then
               html @ '' src=\"'' @ nullOr (getAttribute element ''src'') @ ''\" alt=\"'' @
                 (case getAttribute element ''alt'' of Some a \<Rightarrow> orElse a [] | None \<Rightarrow> []) @ ''\"''
             else html);
          html = foldl (\<lambda>html (name, val).
                   if name \<noteq> ''href'' \<and> name \<noteq> ''src'' then
                     html @ '' data-'' @ name @ ''=\"'' @ val @ ''\"''
                   else html) html (attributes element)
      in html @ ''>'')"

text \<open>
  \<open>doc\<close> is \<^verbatim>\<open>element.ownerDocument.documentElement\<close>.  An element below the root is a
  proper subtree of it, so it is the root exactly when it equals the root.  The renderer
  is called on elements only; each call is on a child of the element before, so the
  recursion ends.
\<close>

function convertToSemanticHtml :: "host \<Rightarrow> node \<Rightarrow> node \<Rightarrow> string" where
  "convertToSemanticHtml h doc (Text s) = []"
| "convertToSemanticHtml h doc (Element t as cs) =
     (let element = Element t as cs;
          htmlTag = lookupTag (toLowerCase (tagName element));
          html = startTag h element;
          html =
            (if childElementCount element = 0 then html @ orElse (textContent element) []
             else foldl (\<lambda>html child. html @ convertToSemanticHtml h doc child) html
                    (children element));
          html = html @ ''</'' @ toText h htmlTag @ ''>''
      in if element = doc then semanticWrapOpen @ html @ semanticWrapClose else html)"
  by pat_completeness auto
termination
  by (relation "measure (\<lambda>(h, doc, e). size e)")
     (auto simp: children_def less_Suc_eq_le size_list_estimation')

section \<open>Dispatch\<close>

text \<open>\<^verbatim>\<open>createHtmlDisplay\<close> (lines 159 to 167) and \<^verbatim>\<open>convertXmlToHtml\<close> (lines 12 to 61).\<close>

definition createHtmlDisplay :: "host \<Rightarrow> node \<Rightarrow> node \<Rightarrow> error + string" where
  "createHtmlDisplay h doc rootElement =
     (if isTabularData rootElement then convertToHtmlTable h rootElement
      else Inr (convertToSemanticHtml h doc rootElement))"

text \<open>
  \<^verbatim>\<open>xmlDoc.querySelector("parsererror")\<close> searches the whole document, its root
  element included.
\<close>

definition parserError :: "node \<Rightarrow> node option" where
  "parserError xmlDoc =
     (if localName xmlDoc = ''parsererror'' then Some xmlDoc
      else querySelector [TypeSel ''parsererror''] xmlDoc)"

definition convertXmlToHtml :: "host \<Rightarrow> node \<Rightarrow> error + string" where
  "convertXmlToHtml h xmlDoc =
     (if parserError xmlDoc \<noteq> None then Inl InvalidXmlFormat
      else
        let rootElement = xmlDoc in
        if toLowerCase (tagName rootElement) = ''table'' then
          Inr (convertTableXmlToHtml rootElement)
        else
          let rootTagName = toLowerCase (tagName rootElement) in
          if rootTagName = ''rss'' \<or> rootTagName = ''feed'' \<or> rootTagName = ''channel'' then
            Inr (convertFeedToHtml rootElement)
          else if rootTagName = ''svg'' then Inr (serializeToString h rootElement)
          else if isTabularData rootElement then convertToHtmlTable h rootElement
          else createHtmlDisplay h xmlDoc rootElement)"

section \<open>The formatters\<close>

text \<open>
  \<^verbatim>\<open>formatCode\<close> (lines 439 to 451), \<^verbatim>\<open>formatHtml\<close> (lines 425 to 434) and
  \<^verbatim>\<open>formatXml\<close> (lines 393 to 418).  \<^verbatim>\<open>!s.trim()\<close> holds when the trimmed string
  is empty.  A \<^verbatim>\<open>throw\<close> inside \<^verbatim>\<open>try\<close> ends in the \<^verbatim>\<open>catch\<close>, which returns the
  input.
\<close>

datatype codeType = Html | Xml

definition formatCode :: "host \<Rightarrow> string \<Rightarrow> codeType \<Rightarrow> string option" where
  "formatCode h code type = js_beautify h code"

definition formatHtml :: "host \<Rightarrow> string \<Rightarrow> string" where
  "formatHtml h htmlString =
     (if trim h htmlString = [] then []
      else case formatCode h htmlString Html of Some r \<Rightarrow> r | None \<Rightarrow> htmlString)"

definition formatXml :: "host \<Rightarrow> string \<Rightarrow> node \<Rightarrow> string" where
  "formatXml h xmlString xmlDoc =
     (if trim h xmlString = [] then []
      else if parserError xmlDoc \<noteq> None then xmlString
      else
        let formatted = serializeDocument h xmlDoc in
        case formatCode h formatted Xml of Some r \<Rightarrow> r | None \<Rightarrow> xmlString)"

section \<open>Definitions for stating the claims\<close>

text \<open>
  The shapes of the specification and its classification rule, written from the
  specification's words (section 4.2), to be compared with the dispatch of
  \<^verbatim>\<open>convertXmlToHtml\<close>.
\<close>

datatype shape = Table | Feed | SvgPassthrough | TabularGeneric | SemanticGeneric

definition spec_classify :: "node \<Rightarrow> shape" where
  "spec_classify root =
     (let t = toLowerCase (tagName root) in
      if t = ''table'' then Table
      else if t \<in> {''rss'', ''feed'', ''channel''} then Feed
      else if t = ''svg'' then SvgPassthrough
      else if isTabularData root then TabularGeneric
      else SemanticGeneric)"

fun spec_render :: "host \<Rightarrow> node \<Rightarrow> shape \<Rightarrow> error + string" where
  "spec_render h root Table = Inr (convertTableXmlToHtml root)"
| "spec_render h root Feed = Inr (convertFeedToHtml root)"
| "spec_render h root SvgPassthrough = Inr (serializeToString h root)"
| "spec_render h root TabularGeneric = convertToHtmlTable h root"
| "spec_render h root SemanticGeneric = Inr (convertToSemanticHtml h root root)"

text \<open>
  A host for evaluating the model on examples; it stands in for a browser on the ASCII
  inputs of the examples only.  The serializer prints the text content, the beautifier
  returns its input, every selector text that is not a plain name is refused, an
  inherited value prints as its key, and \<open>trim\<close> removes TAB, LF, VT, FF, CR and SPACE
  from both ends, which is what \<^verbatim>\<open>trim\<close> does to an ASCII string.
\<close>

definition asciiSpace :: "char \<Rightarrow> bool" where
  "asciiSpace c =
     (c \<in> set [CHR 0x09, CHR 0x0A, CHR 0x0B, CHR 0x0C, CHR 0x0D, CHR '' ''])"

definition asciiTrim :: "string \<Rightarrow> string" where
  "asciiTrim s = rev (dropWhile asciiSpace (rev (dropWhile asciiSpace s)))"

definition sampleHost :: host where
  "sampleHost =
     \<lparr> serializeToString = textContent, serializeDocument = textContent,
       js_beautify = Some, querySelectorOther = (\<lambda>sel n. Inl SelectorSyntaxError),
       objectText = (\<lambda>key. key), trim = asciiTrim \<rparr>"










text \<open>
  The document
  \<^verbatim>\<open><data><r><X>1</X><Y>2</Y></r><r><X><Y>deep</Y></X><Z>3</Z></r></data>\<close>: two
  rows with different fields, where the second row's X holds a Y.
\<close>

definition nestedDoc :: node where
  "nestedDoc =
     Element ''data'' []
       [Element ''r'' [] [Element ''X'' [] [Text ''1''], Element ''Y'' [] [Text ''2'']],
        Element ''r'' [] [Element ''X'' [] [Element ''Y'' [] [Text ''deep'']],
                          Element ''Z'' [] [Text ''3'']]]"

text \<open>
  For the Table renderer: the text written for one column, one cell and one row, the
  columns and cells that are written, and the two optional sections of the output.
\<close>

definition columnHtml :: "node \<Rightarrow> string" where
  "columnHtml col = ''<th>'' @ textContent col @ ''</th>''"

definition cellHtml :: "node \<Rightarrow> string" where
  "cellHtml cell = ''<td>'' @ textContent cell @ ''</td>''"

definition rowHtml :: "node \<Rightarrow> string" where
  "rowHtml row =
     ''<tr>'' @ concat (map cellHtml (querySelectorAll [TypeSel ''cell''] row)) @ ''</tr>''"

definition tableColumns :: "node \<Rightarrow> node list" where
  "tableColumns e =
     (case querySelector [TypeSel ''header''] e of
        None \<Rightarrow> []
      | Some header \<Rightarrow> querySelectorAll [TypeSel ''column''] header)"

definition tableCells :: "node \<Rightarrow> node list" where
  "tableCells e =
     concat (map (querySelectorAll [TypeSel ''cell'']) (querySelectorAll [TypeSel ''row''] e))"

definition theadSection :: "node \<Rightarrow> string" where
  "theadSection e =
     (case querySelector [TypeSel ''header''] e of
        None \<Rightarrow> []
      | Some header \<Rightarrow>
          ''<thead><tr>'' @
          concat (map columnHtml (querySelectorAll [TypeSel ''column''] header)) @
          ''</tr></thead>'')"

definition tbodySection :: "node \<Rightarrow> string" where
  "tbodySection e =
     (if querySelectorAll [TypeSel ''row''] e = [] then []
      else ''<tbody>'' @ concat (map rowHtml (querySelectorAll [TypeSel ''row''] e)) @
           ''</tbody>'')"

section \<open>Auxiliary lemmas\<close>



lemma matches_types:
  "list_ex (\<lambda>s. matches s pe) (map TypeSel names) = (localName (snd pe) \<in> set names)"
  by (cases pe) (auto simp: list_ex_iff)

lemma querySelectorAll_types:
  "querySelectorAll (map TypeSel names) n
     = filter (\<lambda>e. localName e \<in> set names) (descendants n)"
  by (simp add: querySelectorAll_def descendants_def filter_map comp_def matches_types)





lemma plainXYZ: "isPlainName ''X''" "isPlainName ''Y''" "isPlainName ''Z''"
  by (simp_all add: isPlainName_def nameStartChars_def nameChars_def)

lemma lower_data: "toLowerCase ''data'' = ''data''"
  by (simp add: toLowerCase_def lowerChar_def)

lemma foldl_columns:
  "foldl (\<lambda>html col. html @ ''<th>'' @ orElse (textContent col) [] @ ''</th>'') acc cols
     = acc @ concat (map columnHtml cols)"
  by (induction cols arbitrary: acc) (simp_all add: columnHtml_def orElse_def)

lemma foldl_cells_html:
  "foldl (\<lambda>html cell. html @ ''<td>'' @ orElse (textContent cell) [] @ ''</td>'') acc cells
     = acc @ concat (map cellHtml cells)"
  by (induction cells arbitrary: acc) (simp_all add: cellHtml_def orElse_def)

lemma foldl_ext:
  "(\<And>a x. f a x = a @ g x) \<Longrightarrow> foldl f acc xs = acc @ concat (map g xs)"
  by (induction xs arbitrary: acc) simp_all

lemma foldl_rows_html:
  "foldl (\<lambda>html row.
       let html = html @ ''<tr>'';
           cells = querySelectorAll [TypeSel ''cell''] row;
           html = foldl (\<lambda>html cell.
                    html @ ''<td>'' @ orElse (textContent cell) [] @ ''</td>'') html cells
       in html @ ''</tr>'') acc rows
     = acc @ concat (map rowHtml rows)"
proof (rule foldl_ext)
  fix a x
  show "(let html = a @ ''<tr>'';
             cells = querySelectorAll [TypeSel ''cell''] x;
             html = foldl (\<lambda>html cell.
                      html @ ''<td>'' @ orElse (textContent cell) [] @ ''</td>'') html cells
         in html @ ''</tr>'') = a @ rowHtml x"
    unfolding foldl_cells_html by (simp add: Let_def rowHtml_def)
qed

lemma table_sections_eq:
  "convertTableXmlToHtml e
     = tableXmlOpen @ theadSection e @ tbodySection e @ ''</table></div></div>''"
  unfolding convertTableXmlToHtml_def foldl_columns foldl_rows_html
  by (simp add: Let_def theadSection_def tbodySection_def split: option.splits)

lemma prefix_skip: "x \<notin> set q \<Longrightarrow> prefix q (t @ x # r) = prefix q t"
  by (auto simp: prefix_append prefix_Cons)

lemma sublist_text:
  "x \<notin> set q \<Longrightarrow>
     sublist (x # q) (t @ x # r) = (sublist (x # q) t \<or> sublist (x # q) (x # r))"
proof (induction t)
  case Nil
  then show ?case by simp
next
  case (Cons c t)
  then show ?case
    by (auto simp: sublist_Cons_right prefix_skip)
qed

lemma open_thead: "sublist ''<thead>'' (tableXmlOpen @ r) = sublist ''<thead>'' r"
  by (simp add: tableXmlOpen_def sublist_Cons_right)

lemma open_tbody: "sublist ''<tbody>'' (tableXmlOpen @ r) = sublist ''<tbody>'' r"
  by (simp add: tableXmlOpen_def sublist_Cons_right)

lemma cells_thead:
  "sublist ''<thead>'' (concat (map cellHtml cells) @ CHR ''<'' # r)
   = ((\<exists>cell \<in> set cells. sublist ''<thead>'' (textContent cell))
      \<or> sublist ''<thead>'' (CHR ''<'' # r))"
  by (induction cells) (auto simp: cellHtml_def sublist_Cons_right sublist_text)

lemma rows_thead:
  "sublist ''<thead>'' (concat (map rowHtml rows) @ CHR ''<'' # r)
   = ((\<exists>cell \<in> set (concat (map (querySelectorAll [TypeSel ''cell'']) rows)).
          sublist ''<thead>'' (textContent cell))
      \<or> sublist ''<thead>'' (CHR ''<'' # r))"
  by (induction rows) (auto simp: rowHtml_def sublist_Cons_right cells_thead)

lemma columns_tbody:
  "sublist ''<tbody>'' (concat (map columnHtml cols) @ CHR ''<'' # r)
   = ((\<exists>col \<in> set cols. sublist ''<tbody>'' (textContent col))
      \<or> sublist ''<tbody>'' (CHR ''<'' # r))"
  by (induction cols) (auto simp: columnHtml_def sublist_Cons_right sublist_text)

lemma no_match:
  "\<forall>d \<in> set (descendants e). localName d \<noteq> name \<Longrightarrow> querySelectorAll [TypeSel name] e = []"
  using querySelectorAll_types [of "[name]" e] by (simp add: filter_empty_conv)

lemma thead_absent:
  assumes "\<forall>d \<in> set (descendants e). localName d \<noteq> ''header''"
    and "\<forall>cell \<in> set (tableCells e). \<not> sublist ''<thead>'' (textContent cell)"
  shows "\<not> sublist ''<thead>'' (convertTableXmlToHtml e)"
proof -
  from assms(1) have "theadSection e = []"
    by (simp add: theadSection_def querySelector_def no_match)
  then show ?thesis
    using assms(2)
    by (simp add: table_sections_eq open_thead tbodySection_def tableCells_def
        sublist_Cons_right rows_thead)
qed

lemma tbody_absent:
  assumes "\<forall>d \<in> set (descendants e). localName d \<noteq> ''row''"
    and "\<forall>col \<in> set (tableColumns e). \<not> sublist ''<tbody>'' (textContent col)"
  shows "\<not> sublist ''<tbody>'' (convertTableXmlToHtml e)"
proof -
  from assms(1) have "tbodySection e = []"
    by (simp add: tbodySection_def no_match)
  then show ?thesis
    using assms(2)
    by (simp add: table_sections_eq open_tbody theadSection_def tableColumns_def
        sublist_Cons_right columns_tbody split: option.splits)
qed













lemma all_same_tag_iff:
  "kids \<noteq> [] \<Longrightarrow>
     list_all (\<lambda>child. tagName child = tagName (kids ! 0)) kids
       = (\<exists>tag. \<forall>c \<in> set kids. tagName c = tag)"
  by (cases kids) (auto simp: list_all_iff)

lemma lowerChar_colon: "lowerChar c = CHR '':'' \<longleftrightarrow> c = CHR '':''"
  by (simp add: lowerChar_def split: option.splits)

lemma tabular_tag_local:
  assumes "toLowerCase (tagName root) \<in> {''grid'', ''dataset'', ''records'', ''rows''}"
  shows "localName root \<noteq> ''parsererror''"
proof -
  have "CHR '':'' \<notin> set (toLowerCase (tagName root))"
    using assms by auto
  then have "CHR '':'' \<notin> set (tagName root)"
    using lowerChar_colon [of "CHR '':''"] by (force simp: toLowerCase_def)
  then have "localName root = tagName root"
    by (simp add: localName_def)
  moreover have "toLowerCase ''parsererror'' = ''parsererror''"
    by (simp add: toLowerCase_def lowerChar_def)
  ultimately show ?thesis
    using assms by auto
qed






section \<open>Claims\<close>

text \<open>
  C1.  \<^verbatim>\<open>isTabularData\<close> is true for an element exactly when its lower-cased tag name
  is one of table, grid, dataset, records, rows, or it has more than one child element,
  all child elements have one and the same tag name, and the first child element has
  more than one child element.  In particular it is false for an element with at most
  one child element whose lower-cased tag name is not in the list.
\<close>

theorem isTabularData_iff:
  "(isTabularData e \<longleftrightarrow>
      toLowerCase (tagName e) \<in> {''table'', ''grid'', ''dataset'', ''records'', ''rows''}
      \<or> (1 < length (children e)
          \<and> (\<exists>tag. \<forall>c \<in> set (children e). tagName c = tag)
          \<and> 1 < length (children (children e ! 0))))
   \<and> (length (children e) \<le> 1
        \<and> toLowerCase (tagName e) \<notin> {''table'', ''grid'', ''dataset'', ''records'', ''rows''}
        \<longrightarrow> \<not> isTabularData e)"
proof -
  have same: "1 < length (children e) \<Longrightarrow>
      list_all (\<lambda>child. tagName child = tagName (children e ! 0)) (children e)
        = (\<exists>tag. \<forall>c \<in> set (children e). tagName c = tag)"
    by (rule all_same_tag_iff) auto
  show ?thesis
  proof (cases "1 < length (children e)")
    case True
    with same show ?thesis
      by (simp add: isTabularData_def tabularTags_def Let_def)
  next
    case False
    then show ?thesis
      by (simp add: isTabularData_def tabularTags_def Let_def)
  qed
qed

theorem isTabularData_iff_witness:
  "isTabularData
     (Element ''people'' []
        [Element ''person'' [] [Element ''name'' [] [Text ''Ann''], Element ''age'' [] [Text ''41'']],
         Element ''person'' [] [Element ''name'' [] [Text ''Bob''], Element ''age'' [] [Text ''35'']]])
   \<and> \<not> isTabularData (Element ''list'' [] [Element ''item'' [] [Text ''One'']])"
  using isTabularData_iff
          [of "Element ''people'' []
                 [Element ''person'' [] [Element ''name'' [] [Text ''Ann''], Element ''age'' [] [Text ''41'']],
                  Element ''person'' [] [Element ''name'' [] [Text ''Bob''], Element ''age'' [] [Text ''35'']]]"]
        isTabularData_iff [of "Element ''list'' [] [Element ''item'' [] [Text ''One'']]"]
  by (simp add: children_def toLowerCase_def lowerChar_def)

text \<open>
  C2 (as amended).  A document without a parser error whose root has the lower-cased tag
  table is rendered by the Table renderer.  In its output: when no element named header
  stands anywhere below the root, and no cell that is written has a text that contains
  it, the output does not contain \<^verbatim>\<open><thead>\<close>; when no element named row stands
  anywhere below the root, no \<^verbatim>\<open>tbody\<close> is written at all, empty or not: the output
  does not contain \<^verbatim>\<open><tbody>\<close>, unless the text of a column that is written does.
\<close>

theorem table_missing_sections:
  "(parserError e = None \<and> toLowerCase (tagName e) = ''table''
     \<longrightarrow> convertXmlToHtml h e = Inr (convertTableXmlToHtml e))
   \<and> ((\<forall>d \<in> set (descendants e). localName d \<noteq> ''header'')
      \<and> (\<forall>cell \<in> set (tableCells e). \<not> sublist ''<thead>'' (textContent cell))
     \<longrightarrow> \<not> sublist ''<thead>'' (convertTableXmlToHtml e))
   \<and> ((\<forall>d \<in> set (descendants e). localName d \<noteq> ''row'')
      \<and> (\<forall>col \<in> set (tableColumns e). \<not> sublist ''<tbody>'' (textContent col))
     \<longrightarrow> \<not> sublist ''<tbody>'' (convertTableXmlToHtml e))"
  using thead_absent [of e] tbody_absent [of e]
  by (simp add: convertXmlToHtml_def Let_def)

theorem table_missing_sections_witness:
  "convertXmlToHtml sampleHost
       (Element ''Table'' [] [Element ''row'' [] [Element ''cell'' [] [Text ''1'']]])
     = Inr (convertTableXmlToHtml
         (Element ''Table'' [] [Element ''row'' [] [Element ''cell'' [] [Text ''1'']]]))
   \<and> \<not> sublist ''<thead>''
       (convertTableXmlToHtml
          (Element ''Table'' [] [Element ''row'' [] [Element ''cell'' [] [Text ''1'']]]))
   \<and> \<not> sublist ''<tbody>''
       (convertTableXmlToHtml
          (Element ''table'' [] [Element ''header'' [] [Element ''column'' [] [Text ''A'']]]))"
  using table_missing_sections
          [of "Element ''Table'' [] [Element ''row'' [] [Element ''cell'' [] [Text ''1'']]]"
              sampleHost]
        table_missing_sections
          [of "Element ''table'' [] [Element ''header'' [] [Element ''column'' [] [Text ''A'']]]"
              sampleHost]
  by (simp add: descendants_def tableCells_def tableColumns_def querySelector_def
      querySelectorAll_def localName_def parserError_def toLowerCase_def lowerChar_def
      sublist_Cons_right)

text \<open>
  The claim as stated fails in both halves.  A root without rows gets no \<^verbatim>\<open>tbody\<close>,
  where the claim has an empty one.  A root whose only child is a row gets a
  \<^verbatim>\<open>thead\<close> when a header stands below the row, and a cell's text is written as it is,
  so a cell with the text \<^verbatim>\<open><thead>\<close> puts it into the output.
\<close>

theorem table_sections_counterexample:
  "convertTableXmlToHtml (Element ''table'' [] []) = tableXmlOpen @ ''</table></div></div>''
   \<and> \<not> sublist ''<tbody>'' (convertTableXmlToHtml (Element ''table'' [] []))
   \<and> map tagName (children (Element ''table'' [] [Element ''row'' [] [Element ''header'' [] []]]))
       = [''row'']
   \<and> sublist ''<thead>''
       (convertTableXmlToHtml (Element ''table'' [] [Element ''row'' [] [Element ''header'' [] []]]))
   \<and> descendants (Element ''table'' [] [Element ''row'' [] [Element ''cell'' [] [Text ''<thead>'']]])
       = [Element ''row'' [] [Element ''cell'' [] [Text ''<thead>'']],
          Element ''cell'' [] [Text ''<thead>'']]
   \<and> sublist ''<thead>''
       (convertTableXmlToHtml
          (Element ''table'' [] [Element ''row'' [] [Element ''cell'' [] [Text ''<thead>'']]]))"
  by (simp add: table_sections_eq open_thead open_tbody theadSection_def tbodySection_def
      rowHtml_def cellHtml_def columnHtml_def children_def descendants_def querySelector_def
      querySelectorAll_def localName_def sublist_Cons_right)

text \<open>
  C3.  The code on \<open>nestedDoc\<close>, for any host.  The document is classified
  TabularGeneric, and its header columns are X, Y, Z: the distinct child tag names of
  all rows in first-seen order, as the claim has it.  The second row has the child
  fields X and Z and no child Y, so the claim has an empty Y cell for it; the renderer
  writes the text deep into that cell, because it looks the cell up with
  \<^verbatim>\<open>row.querySelector(colName)\<close> (line 228), which finds the Y below the row's X,
  while the columns are collected from \<^verbatim>\<open>row.children\<close> (lines 208 to 212).
\<close>

theorem nested_field_cell:
  "spec_classify nestedDoc = TabularGeneric
   \<and> allColumnNames (children nestedDoc) = [''X'', ''Y'', ''Z'']
   \<and> map tagName (children (children nestedDoc ! 1)) = [''X'', ''Z'']
   \<and> tableCell h (children nestedDoc ! 1) [] ''Y'' = Inr ''<td>deep</td>''
   \<and> convertXmlToHtml h nestedDoc =
      Inr (htmlTableWrapOpen @ htmlTableOpen @
           ''<thead><tr><th>X</th><th>Y</th><th>Z</th></tr></thead>'' @
           ''<tbody><tr><td>1</td><td>2</td><td></td></tr>'' @
           ''<tr><td>deep</td><td>deep</td><td>3</td></tr></tbody></table></div>'' @
           htmlTableWrapClose)"
  by (simp add: nestedDoc_def children_def convertXmlToHtml_def parserError_def localName_def
      querySelector_def querySelectorAll_def lower_data isTabularData_def tabularTags_def
      spec_classify_def convertToHtmlTable_def allColumnNames_def setAdd_def tableRow_def
      tableCell_def querySelectorText_def plainXYZ orElse_def Let_def)



text \<open>
  C5 (as amended).  When the parser's document holds a \<^verbatim>\<open>parsererror\<close> element, which
  is how \<^verbatim>\<open>DOMParser\<close> reports input that is not well-formed, \<^verbatim>\<open>convertXmlToHtml\<close>
  fails with the error Invalid XML format and returns no text, and \<^verbatim>\<open>formatXml\<close>
  returns the empty string when \<^verbatim>\<open>trim\<close> of the input string is empty (the string is
  empty or holds nothing but what \<^verbatim>\<open>trim\<close> strips), and the input string unchanged
  otherwise.
\<close>

theorem malformed_input:
  "parserError xmlDoc \<noteq> None \<Longrightarrow>
     convertXmlToHtml h xmlDoc = Inl InvalidXmlFormat
     \<and> formatXml h xmlString xmlDoc = (if trim h xmlString = [] then [] else xmlString)"
  by (simp add: convertXmlToHtml_def formatXml_def)

theorem malformed_input_witness:
  "parserError (Element ''parsererror'' [] [Text ''Opening and ending tag mismatch'']) \<noteq> None
   \<and> convertXmlToHtml sampleHost
        (Element ''parsererror'' [] [Text ''Opening and ending tag mismatch''])
       = Inl InvalidXmlFormat
   \<and> formatXml sampleHost ''<a><b></a>''
        (Element ''parsererror'' [] [Text ''Opening and ending tag mismatch''])
       = ''<a><b></a>''"
proof -
  have err: "parserError (Element ''parsererror'' [] [Text ''Opening and ending tag mismatch''])
               \<noteq> None"
    by (simp add: parserError_def localName_def)
  have kept: "trim sampleHost ''<a><b></a>'' \<noteq> []"
    by (simp add: sampleHost_def asciiTrim_def asciiSpace_def)
  show ?thesis
    using err kept malformed_input [OF err, of sampleHost "''<a><b></a>''"]
    by simp
qed

text \<open>
  The claim as stated fails on an input of one space: it is not well-formed (the parser
  returns a \<^verbatim>\<open>parsererror\<close> document and the conversion fails), \<^verbatim>\<open>trim\<close> of it is
  empty, and \<^verbatim>\<open>formatXml\<close> returns the empty string, not the input.
\<close>

theorem blank_malformed_counterexample:
  "convertXmlToHtml sampleHost (Element ''parsererror'' [] [Text ''no root element found''])
     = Inl InvalidXmlFormat
   \<and> trim sampleHost '' '' = []
   \<and> formatXml sampleHost '' '' (Element ''parsererror'' [] [Text ''no root element found''])
     = []
   \<and> formatXml sampleHost '' '' (Element ''parsererror'' [] [Text ''no root element found''])
     \<noteq> '' ''"
  by (simp add: convertXmlToHtml_def formatXml_def parserError_def localName_def
      sampleHost_def asciiTrim_def asciiSpace_def)

text \<open>
  C6.  On a document without a parser error, \<^verbatim>\<open>convertXmlToHtml\<close> returns what the
  renderer of the root's shape returns, where the shape is found by the first rule that
  matches, in this order: tag table (lower-cased), the Table renderer; tag rss, feed or
  channel, the Feed renderer; tag svg, the serializer; a root that satisfies the tabular
  predicate, the TabularGeneric renderer; otherwise the SemanticGeneric renderer.
\<close>

theorem dispatch_order:
  "parserError xmlDoc = None \<Longrightarrow>
     convertXmlToHtml h xmlDoc = spec_render h xmlDoc (spec_classify xmlDoc)"
  by (simp add: convertXmlToHtml_def spec_classify_def createHtmlDisplay_def Let_def)

theorem dispatch_order_witness:
  "parserError (Element ''RSS'' [] [Text ''x'']) = None
   \<and> spec_classify (Element ''RSS'' [] [Text ''x'']) = Feed
   \<and> convertXmlToHtml sampleHost (Element ''RSS'' [] [Text ''x''])
       = Inr (convertFeedToHtml (Element ''RSS'' [] [Text ''x'']))"
proof -
  have ok: "parserError (Element ''RSS'' [] [Text ''x'']) = None"
    by (simp add: parserError_def localName_def querySelector_def querySelectorAll_def)
  have cls: "spec_classify (Element ''RSS'' [] [Text ''x'']) = Feed"
    by (simp add: spec_classify_def toLowerCase_def lowerChar_def)
  show ?thesis
    using ok cls dispatch_order [OF ok, of sampleHost] by simp
qed





text \<open>
  C10.  A document whose root has the lower-cased tag grid, dataset, records or rows and
  no child element holds no \<^verbatim>\<open>parsererror\<close> element, so the parser error check
  passes, and \<^verbatim>\<open>convertXmlToHtml\<close> succeeds and returns the empty string.
\<close>

theorem empty_tabular_root:
  assumes "toLowerCase (tagName root) \<in> {''grid'', ''dataset'', ''records'', ''rows''}"
    and "children root = []"
  shows "parserError root = None \<and> convertXmlToHtml h root = Inr []"
proof -
  from assms(1) have tab: "isTabularData root"
    by (auto simp: isTabularData_def tabularTags_def)
  from assms(1) have tags: "toLowerCase (tagName root) \<noteq> ''table''"
    "toLowerCase (tagName root) \<noteq> ''rss''" "toLowerCase (tagName root) \<noteq> ''feed''"
    "toLowerCase (tagName root) \<noteq> ''channel''" "toLowerCase (tagName root) \<noteq> ''svg''"
    by auto
  from assms(2) have "walk root = []"
    by (cases root) (auto simp: children_def filter_empty_conv)
  with tabular_tag_local [OF assms(1)] have ok: "parserError root = None"
    by (simp add: parserError_def querySelector_def querySelectorAll_def)
  with tab tags assms(2) show ?thesis
    by (simp add: convertXmlToHtml_def convertToHtmlTable_def Let_def)
qed

theorem empty_tabular_root_witness:
  "toLowerCase (tagName (Element ''Rows'' [] [Text ''none'']))
     \<in> {''grid'', ''dataset'', ''records'', ''rows''}
   \<and> children (Element ''Rows'' [] [Text ''none'']) = []
   \<and> convertXmlToHtml sampleHost (Element ''Rows'' [] [Text ''none'']) = Inr []"
proof -
  have a: "toLowerCase (tagName (Element ''Rows'' [] [Text ''none'']))
             \<in> {''grid'', ''dataset'', ''records'', ''rows''}"
    by (simp add: toLowerCase_def lowerChar_def)
  have b: "children (Element ''Rows'' [] [Text ''none'']) = []"
    by (simp add: children_def)
  show ?thesis
    using a b empty_tabular_root [OF a b, of sampleHost] by simp
qed

end
